theory Spec2Isabelle
  imports Main
begin

section \<open>Data model\<close>

text \<open>
  The composable \<open>useTheme\<close> of \<open>src/unnamed/part_000\<close> closes over its options, a Vue
  \<open>ref\<close> holding the current theme, the root element of the document and a storage
  backend. The model passes the options explicitly and threads everything mutable through
  a state record.
\<close>

type_synonym ThemeName = string

text \<open>
  \<open>ThemeConfig\<close>: both properties are optional (\<open>None\<close> is JavaScript's \<open>undefined\<close>).
  The property \<open>class\<close> is written \<open>class'\<close>.
\<close>

record ThemeConfig =
  class' :: "string option"
  dataTheme :: "string option"

text \<open>
  A custom \<open>StorageLike\<close> object is supplied by the caller; its behaviour is arbitrary.
  It is modelled by its two methods acting on a private state of type \<open>'c\<close>.
  The result \<open>None\<close> of \<open>getItem\<close> is \<open>null\<close>.
\<close>

datatype 'c StorageLike =
  StorageLike (getItem: "'c \<Rightarrow> string \<Rightarrow> string option") (setItem: "string \<Rightarrow> string \<Rightarrow> 'c \<Rightarrow> 'c")

text \<open>The option \<open>storage\<close>: \<open>'local' | 'session' | 'none' | StorageLike\<close>.\<close>

datatype 'c storage = Local | Session | NoStorage | Custom "'c StorageLike"

text \<open>
  \<open>ThemeOptions\<close>. Every field but \<open>available\<close> is optional. The object \<open>themes\<close> is an
  association list in the enumeration order of \<open>Object.values\<close>; \<open>themes[name]\<close> is
  \<open>map_of\<close>. The function \<open>detectTheme\<close> returns a name or \<open>null\<close>.
\<close>

record 'c ThemeOptions =
  defaultTheme :: "ThemeName option"
  available :: "ThemeName list"
  themes :: "(ThemeName \<times> ThemeConfig) list option"
  key :: "string option"
  storage :: "'c storage option"
  detectTheme :: "(unit \<Rightarrow> ThemeName option) option"

text \<open>
  What the composable reads and writes outside itself: the class list and the attributes
  of \<open>document.documentElement\<close>, the two browser stores, the private state of a custom
  backend, and a counter of the calls made to \<open>detectTheme\<close>.
\<close>

record 'c world =
  classList :: "string list"
  attributes :: "string \<rightharpoonup> string"
  localStorage :: "string \<rightharpoonup> string"
  sessionStorage :: "string \<rightharpoonup> string"
  customStorage :: "'c"
  detectCalls :: nat

text \<open>
  The controller's state adds the ref \<open>theme\<close>. Its value is \<open>None\<close> (\<open>undefined\<close>) only
  when \<open>defaultTheme\<close> is omitted and \<open>available\<close> is empty.
\<close>

record 'c state = "'c world" +
  theme :: "ThemeName option"

text \<open>
  \<open>DOMTokenList.add\<close> and \<open>remove\<close> throw on a token that is empty or contains ASCII
  whitespace. A call either returns or throws, and the mutations made before a throw
  stay, so both outcomes carry the state.
\<close>

datatype DOMException = SyntaxError | InvalidCharacterError

datatype 's completion = Normal 's | Throw DOMException 's

fun state_of :: "'s completion \<Rightarrow> 's" where
  "state_of (Normal s) = s"
| "state_of (Throw e s) = s"

fun andThen :: "'s completion \<Rightarrow> ('s \<Rightarrow> 's completion) \<Rightarrow> 's completion" where
  "andThen (Normal s) f = f s"
| "andThen (Throw e s) f = Throw e s"

section \<open>The root element\<close>

definition ascii_whitespace :: "char \<Rightarrow> bool" where
  "ascii_whitespace c \<longleftrightarrow> c \<in> {CHR 0x09, CHR 0x0A, CHR 0x0C, CHR 0x0D, CHR 0x20}"

definition validate_token :: "string \<Rightarrow> DOMException option" where
  "validate_token t =
     (if t = [] then Some SyntaxError
      else if list_ex ascii_whitespace t then Some InvalidCharacterError
      else None)"

definition classList_add :: "string \<Rightarrow> ('c, 'z) world_scheme \<Rightarrow> ('c, 'z) world_scheme completion" where
  "classList_add t w =
     (case validate_token t of
        Some e \<Rightarrow> Throw e w
      | None \<Rightarrow> Normal (if t \<in> set (classList w) then w else w\<lparr>classList := classList w @ [t]\<rparr>))"

definition classList_remove :: "string \<Rightarrow> ('c, 'z) world_scheme \<Rightarrow> ('c, 'z) world_scheme completion" where
  "classList_remove t w =
     (case validate_token t of
        Some e \<Rightarrow> Throw e w
      | None \<Rightarrow> Normal (w\<lparr>classList := filter (\<lambda>c. c \<noteq> t) (classList w)\<rparr>))"

definition setAttribute :: "string \<Rightarrow> string \<Rightarrow> ('c, 'z) world_scheme \<Rightarrow> ('c, 'z) world_scheme" where
  "setAttribute n v w = w\<lparr>attributes := (attributes w)(n \<mapsto> v)\<rparr>"

definition removeAttribute :: "string \<Rightarrow> ('c, 'z) world_scheme \<Rightarrow> ('c, 'z) world_scheme" where
  "removeAttribute n w = w\<lparr>attributes := (attributes w)(n := None)\<rparr>"

section \<open>Resolved options\<close>

text \<open>The destructuring defaults of lines 90 to 97, and \<open>resolvedStorage\<close> of lines 99 to 106.\<close>

definition resolvedDefault :: "('c, 'y) ThemeOptions_scheme \<Rightarrow> ThemeName option" where
  "resolvedDefault opts =
     (case defaultTheme opts of
        Some d \<Rightarrow> Some d
      | None \<Rightarrow> (case available opts of [] \<Rightarrow> None | a # _ \<Rightarrow> Some a))"

definition resolvedThemes :: "('c, 'y) ThemeOptions_scheme \<Rightarrow> (ThemeName \<times> ThemeConfig) list" where
  "resolvedThemes opts = (case themes opts of Some t \<Rightarrow> t | None \<Rightarrow> [])"

definition resolvedKey :: "('c, 'y) ThemeOptions_scheme \<Rightarrow> string" where
  "resolvedKey opts = (case key opts of Some k \<Rightarrow> k | None \<Rightarrow> ''theme'')"

definition resolvedStorage :: "('c, 'y) ThemeOptions_scheme \<Rightarrow> 'c storage" where
  "resolvedStorage opts = (case storage opts of Some s \<Rightarrow> s | None \<Rightarrow> Local)"

text \<open>
  \<open>resolvedStorage?.getItem(key)\<close> and \<open>resolvedStorage?.setItem(key, value)\<close>; with
  \<open>NoStorage\<close> the backend is \<open>null\<close>, the read gives \<open>undefined\<close> and the write is skipped.
\<close>

fun storage_getItem :: "'c storage \<Rightarrow> string \<Rightarrow> ('c, 'z) world_scheme \<Rightarrow> string option" where
  "storage_getItem Local k w = localStorage w k"
| "storage_getItem Session k w = sessionStorage w k"
| "storage_getItem NoStorage k w = None"
| "storage_getItem (Custom b) k w = getItem b (customStorage w) k"

fun storage_setItem :: "'c storage \<Rightarrow> string \<Rightarrow> string \<Rightarrow> ('c, 'z) world_scheme \<Rightarrow> ('c, 'z) world_scheme" where
  "storage_setItem Local k v w = w\<lparr>localStorage := (localStorage w)(k \<mapsto> v)\<rparr>"
| "storage_setItem Session k v w = w\<lparr>sessionStorage := (sessionStorage w)(k \<mapsto> v)\<rparr>"
| "storage_setItem NoStorage k v w = w"
| "storage_setItem (Custom b) k v w = w\<lparr>customStorage := setItem b k v (customStorage w)\<rparr>"

section \<open>The controller\<close>

text \<open>Truthiness of a value of type \<open>string | null | undefined\<close>: the empty string is falsy.\<close>

definition truthy :: "string option \<Rightarrow> bool" where
  "truthy v = (case v of None \<Rightarrow> False | Some s \<Rightarrow> s \<noteq> [])"

text \<open>Construction: \<open>const theme = ref(defaultTheme)\<close>, line 108.\<close>

definition useTheme :: "('c, 'y) ThemeOptions_scheme \<Rightarrow> 'c world \<Rightarrow> 'c state" where
  "useTheme opts w =
     \<lparr>classList = classList w, attributes = attributes w, localStorage = localStorage w,
      sessionStorage = sessionStorage w, customStorage = customStorage w,
      detectCalls = detectCalls w, theme = resolvedDefault opts\<rparr>"

text \<open>The \<open>forEach\<close> of lines 122 to 124: a throw ends the sweep.\<close>

fun sweep :: "ThemeConfig list \<Rightarrow> ('c, 'z) world_scheme \<Rightarrow> ('c, 'z) world_scheme completion" where
  "sweep [] w = Normal w"
| "sweep (cfg # cfgs) w =
     (if truthy (class' cfg)
      then andThen (classList_remove (the (class' cfg)) w) (sweep cfgs)
      else sweep cfgs w)"

text \<open>\<open>_applyTheme\<close>, lines 118 to 129.\<close>

definition applyTheme ::
  "(ThemeName \<times> ThemeConfig) list \<Rightarrow> ThemeName \<Rightarrow> ('c, 'z) world_scheme \<Rightarrow> ('c, 'z) world_scheme completion" where
  "applyTheme ths name w =
     (let config = map_of ths name;
          cls = Option.bind config class';
          dt = Option.bind config dataTheme
      in andThen (sweep (map snd ths) w) (\<lambda>w1.
         andThen (if truthy cls then classList_add (the cls) w1 else Normal w1) (\<lambda>w2.
         Normal (if truthy dt then setAttribute ''data-theme'' (the dt) w2
                 else removeAttribute ''data-theme'' w2))))"

text \<open>\<open>setTheme\<close>, lines 137 to 143.\<close>

definition setTheme :: "('c, 'y) ThemeOptions_scheme \<Rightarrow> ThemeName \<Rightarrow> 'c state \<Rightarrow> 'c state completion" where
  "setTheme opts v st =
     (if v \<notin> set (available opts) then Normal st
      else if theme st = Some v then Normal st
      else andThen (applyTheme (resolvedThemes opts) v (st\<lparr>theme := Some v\<rparr>)) (\<lambda>st'.
           Normal (storage_setItem (resolvedStorage opts) (resolvedKey opts) v st')))"

text \<open>
  A call \<open>setTheme(x)\<close> where \<open>x\<close> may be \<open>undefined\<close>: \<open>available\<close> holds strings only, so
  \<open>available.includes(undefined)\<close> is false and the call returns at line 138.
\<close>

definition setTheme_opt :: "('c, 'y) ThemeOptions_scheme \<Rightarrow> ThemeName option \<Rightarrow> 'c state \<Rightarrow> 'c state completion" where
  "setTheme_opt opts x st = (case x of None \<Rightarrow> Normal st | Some v \<Rightarrow> setTheme opts v st)"

text \<open>\<open>Array.prototype.indexOf\<close>: the first index of the element, or \<open>-1\<close>.\<close>

fun indexOf :: "'a list \<Rightarrow> 'a \<Rightarrow> int" where
  "indexOf [] x = - 1"
| "indexOf (y # ys) x =
     (if y = x then 0 else (let i = indexOf ys x in if i < 0 then - 1 else i + 1))"

text \<open>
  \<open>toggleTheme\<close>, lines 155 to 159. With an empty \<open>available\<close> the remainder is \<open>NaN\<close> and
  \<open>available[NaN]\<close> is \<open>undefined\<close>. The sum \<open>currentIndex + 1\<close> is never negative, so
  JavaScript's \<open>%\<close> agrees with \<open>mod\<close>.
\<close>

definition toggleTheme :: "('c, 'y) ThemeOptions_scheme \<Rightarrow> 'c state \<Rightarrow> 'c state completion" where
  "toggleTheme opts st =
     (let currentIndex = (case theme st of None \<Rightarrow> - 1 | Some t \<Rightarrow> indexOf (available opts) t);
          n = int (length (available opts))
      in if n = 0 then setTheme_opt opts None st
         else setTheme opts (available opts ! nat ((currentIndex + 1) mod n)) st)"

text \<open>
  The callback registered with \<open>onMounted\<close>, lines 161 to 175, in three parts: the
  validity of the stored value, the call of \<open>detectTheme\<close> (counted), and the choice of
  \<open>initial\<close>.
\<close>

definition storedValue :: "('c, 'y) ThemeOptions_scheme \<Rightarrow> ('c, 'z) world_scheme \<Rightarrow> string option" where
  "storedValue opts w = storage_getItem (resolvedStorage opts) (resolvedKey opts) w"

definition isValid :: "('c, 'y) ThemeOptions_scheme \<Rightarrow> string option \<Rightarrow> bool" where
  "isValid opts stored \<longleftrightarrow> truthy stored \<and> the stored \<in> set (available opts)"

definition detect :: "('c, 'y) ThemeOptions_scheme \<Rightarrow> bool \<Rightarrow> 'c state \<Rightarrow> ThemeName option \<times> 'c state" where
  "detect opts valid st =
     (if \<not> valid then
        (case detectTheme opts of
           Some f \<Rightarrow> (f (), st\<lparr>detectCalls := detectCalls st + 1\<rparr>)
         | None \<Rightarrow> (None, st))
      else (None, st))"

definition initial :: "('c, 'y) ThemeOptions_scheme \<Rightarrow> string option \<Rightarrow> ThemeName option \<Rightarrow> ThemeName option" where
  "initial opts stored detected =
     (if isValid opts stored then stored
      else if truthy detected \<and> the detected \<in> set (available opts) then detected
      else resolvedDefault opts)"

definition resolveInitial :: "('c, 'y) ThemeOptions_scheme \<Rightarrow> 'c state \<Rightarrow> ThemeName option \<times> 'c state" where
  "resolveInitial opts st =
     (let stored = storedValue opts st;
          (detected, st1) = detect opts (isValid opts stored) st
      in (initial opts stored detected, st1))"

definition initialize :: "('c, 'y) ThemeOptions_scheme \<Rightarrow> 'c state \<Rightarrow> 'c state completion" where
  "initialize opts st = (case resolveInitial opts st of (i, st1) \<Rightarrow> setTheme_opt opts i st1)"

section \<open>Sequences of calls\<close>

text \<open>
  What a client can do with a controller. A throw leaves the state as it is at the throw,
  and the next call starts from there.
\<close>

datatype call = SetTheme ThemeName | ToggleTheme | Initialize

fun perform :: "('c, 'y) ThemeOptions_scheme \<Rightarrow> call \<Rightarrow> 'c state \<Rightarrow> 'c state completion" where
  "perform opts (SetTheme v) st = setTheme opts v st"
| "perform opts ToggleTheme st = toggleTheme opts st"
| "perform opts Initialize st = initialize opts st"

fun run :: "('c, 'y) ThemeOptions_scheme \<Rightarrow> call list \<Rightarrow> 'c state \<Rightarrow> 'c state" where
  "run opts [] st = st"
| "run opts (c # cs) st = run opts cs (state_of (perform opts c st))"

section \<open>Properties of a configuration\<close>

text \<open>The class markers that the sweep removes, and their validity as DOM tokens.\<close>

definition markers :: "ThemeConfig list \<Rightarrow> string list" where
  "markers cfgs = map (\<lambda>cfg. the (class' cfg)) (filter (\<lambda>cfg. truthy (class' cfg)) cfgs)"

definition validMarkers :: "ThemeConfig list \<Rightarrow> bool" where
  "validMarkers cfgs = list_all (\<lambda>t. validate_token t = None) (markers cfgs)"

text \<open>The invariant of the specification: the current theme is a member of \<open>available\<close>.\<close>

definition theme_in_available :: "('c, 'y) ThemeOptions_scheme \<Rightarrow> 'c state \<Rightarrow> bool" where
  "theme_in_available opts st = (case theme st of None \<Rightarrow> False | Some t \<Rightarrow> t \<in> set (available opts))"

section \<open>Concrete configurations\<close>

definition fresh :: "unit world" where
  "fresh = \<lparr>classList = [], attributes = Map.empty, localStorage = Map.empty,
     sessionStorage = Map.empty, customStorage = (), detectCalls = 0\<rparr>"

definition scenario :: "'c ThemeOptions" where
  "scenario = \<lparr>defaultTheme = Some ''blue'', available = [''red'', ''blue''],
     themes = Some [(''red'', \<lparr>class' = Some ''theme-red'', dataTheme = None\<rparr>),
                    (''blue'', \<lparr>class' = Some ''theme-blue'', dataTheme = Some ''blue''\<rparr>)],
     key = None, storage = None, detectTheme = None\<rparr>"

definition cxcy :: "unit ThemeOptions" where
  "cxcy = \<lparr>defaultTheme = Some ''Y'', available = [''X'', ''Y''],
     themes = Some [(''X'', \<lparr>class' = Some ''cx'', dataTheme = None\<rparr>),
                    (''Y'', \<lparr>class' = Some ''cy'', dataTheme = None\<rparr>)],
     key = None, storage = None, detectTheme = None\<rparr>"

definition cxcy_removed :: "unit ThemeOptions" where
  "cxcy_removed = cxcy\<lparr>themes := Some [(''Y'', \<lparr>class' = Some ''cy'', dataTheme = None\<rparr>)]\<rparr>"

definition outside :: "unit ThemeOptions" where
  "outside = \<lparr>defaultTheme = Some ''blue'', available = [''light'', ''dark''],
     themes = None, key = None, storage = None, detectTheme = None\<rparr>"

definition lightdark :: "unit ThemeOptions" where
  "lightdark = \<lparr>defaultTheme = None, available = [''light'', ''dark''],
     themes = None, key = None, storage = None, detectTheme = None\<rparr>"

definition emptyName :: "unit ThemeOptions" where
  "emptyName = \<lparr>defaultTheme = Some ''dark'', available = ['''', ''dark''],
     themes = None, key = None, storage = None, detectTheme = None\<rparr>"

definition storedEmpty :: "unit world" where
  "storedEmpty = fresh\<lparr>localStorage := [''theme'' \<mapsto> '''']\<rparr>"

definition sdx :: "unit ThemeOptions" where
  "sdx = \<lparr>defaultTheme = Some ''x'', available = [''s'', ''d'', ''x''],
     themes = None, key = None, storage = None, detectTheme = Some (\<lambda>_. Some ''d'')\<rparr>"

definition sdq :: "unit ThemeOptions" where
  "sdq = \<lparr>defaultTheme = Some ''x'', available = [''s'', ''d'', ''x''],
     themes = None, key = None, storage = None, detectTheme = Some (\<lambda>_. Some ''q'')\<rparr>"

definition storedS :: "unit world" where
  "storedS = fresh\<lparr>localStorage := [''theme'' \<mapsto> ''s'']\<rparr>"

definition abc :: "unit ThemeOptions" where
  "abc = \<lparr>defaultTheme = None, available = [''a'', ''b'', ''c''],
     themes = None, key = None, storage = None, detectTheme = None\<rparr>"

definition single :: "unit ThemeOptions" where
  "single = \<lparr>defaultTheme = None, available = [''a''],
     themes = None, key = None, storage = None, detectTheme = None\<rparr>"

section \<open>Auxiliary lemmas\<close>

subsection \<open>What a call leaves unchanged\<close>

lemma andThen_pres:
  assumes "g (state_of c) = g w" and "\<And>s. g (state_of (f s)) = g s"
  shows "g (state_of (andThen c f)) = g w"
  using assms by (cases c) simp_all

lemma classList_remove_pres:
  assumes "\<And>w cl. g (w\<lparr>classList := cl\<rparr>) = g w"
  shows "g (state_of (classList_remove t w)) = g w"
  by (simp add: classList_remove_def assms split: option.split)

lemma classList_add_pres:
  assumes "\<And>w cl. g (w\<lparr>classList := cl\<rparr>) = g w"
  shows "g (state_of (classList_add t w)) = g w"
  by (simp add: classList_add_def assms split: option.split)

lemma sweep_pres:
  assumes "\<And>w cl. g (w\<lparr>classList := cl\<rparr>) = g w"
  shows "g (state_of (sweep cfgs w)) = g w"
proof (induction cfgs arbitrary: w)
  case Nil
  show ?case by simp
next
  case (Cons cfg cfgs)
  show ?case
  proof (cases "truthy (class' cfg)")
    case True
    have "g (state_of (andThen (classList_remove (the (class' cfg)) w) (sweep cfgs))) = g w"
      by (rule andThen_pres) (simp_all add: classList_remove_pres assms Cons.IH)
    with True show ?thesis by simp
  next
    case False
    with Cons.IH show ?thesis by simp
  qed
qed

lemma applyTheme_pres:
  assumes cl: "\<And>w cl. g (w\<lparr>classList := cl\<rparr>) = g w"
    and at: "\<And>w a. g (w\<lparr>attributes := a\<rparr>) = g w"
  shows "g (state_of (applyTheme ths name w)) = g w"
  unfolding applyTheme_def Let_def
proof (rule andThen_pres)
  show "g (state_of (sweep (map snd ths) w)) = g w"
    by (rule sweep_pres) (rule cl)
next
  fix w1
  let ?cls = "Option.bind (map_of ths name) class'"
  let ?dt = "Option.bind (map_of ths name) dataTheme"
  show "g (state_of (andThen (if truthy ?cls then classList_add (the ?cls) w1 else Normal w1)
          (\<lambda>w2. Normal (if truthy ?dt then setAttribute ''data-theme'' (the ?dt) w2
                         else removeAttribute ''data-theme'' w2)))) = g w1"
  proof (rule andThen_pres)
    show "g (state_of (if truthy ?cls then classList_add (the ?cls) w1 else Normal w1)) = g w1"
      by (simp add: classList_add_pres cl)
  next
    fix w2
    show "g (state_of (Normal (if truthy ?dt then setAttribute ''data-theme'' (the ?dt) w2
                         else removeAttribute ''data-theme'' w2))) = g w2"
      by (simp add: setAttribute_def removeAttribute_def at)
  qed
qed

lemma applyTheme_theme:
  fixes st :: "'c state"
  shows "theme (state_of (applyTheme ths name st)) = theme st"
  by (rule applyTheme_pres) simp_all

lemma storage_setItem_theme:
  fixes st :: "'c state"
  shows "theme (storage_setItem b k v st) = theme st"
  by (cases b) simp_all

lemma storage_setItem_dom:
  "classList (storage_setItem b k v w) = classList w"
  "attributes (storage_setItem b k v w) = attributes w"
  "detectCalls (storage_setItem b k v w) = detectCalls w"
  by (cases b; simp)+

lemma setTheme_theme:
  "theme (state_of (setTheme opts v st)) = (if v \<in> set (available opts) then Some v else theme st)"
proof -
  have "theme (state_of (andThen (applyTheme (resolvedThemes opts) v (st\<lparr>theme := Some v\<rparr>))
          (\<lambda>st'. Normal (storage_setItem (resolvedStorage opts) (resolvedKey opts) v st'))))
        = theme (st\<lparr>theme := Some v\<rparr>)"
    by (rule andThen_pres) (simp_all add: applyTheme_theme storage_setItem_theme)
  then show ?thesis by (simp add: setTheme_def)
qed

lemma setTheme_detectCalls:
  "detectCalls (state_of (setTheme opts v st)) = detectCalls st"
proof -
  have "detectCalls (state_of (andThen (applyTheme (resolvedThemes opts) v (st\<lparr>theme := Some v\<rparr>))
          (\<lambda>st'. Normal (storage_setItem (resolvedStorage opts) (resolvedKey opts) v st'))))
        = detectCalls (st\<lparr>theme := Some v\<rparr>)"
    by (rule andThen_pres) (simp_all add: applyTheme_pres storage_setItem_dom)
  then show ?thesis by (simp add: setTheme_def)
qed

subsection \<open>The index of the current theme\<close>

lemma indexOf_notin: "x \<notin> set xs \<Longrightarrow> indexOf xs x = - 1"
  by (induction xs) (auto simp: Let_def)

lemma indexOf_in:
  "x \<in> set xs \<Longrightarrow> 0 \<le> indexOf xs x \<and> indexOf xs x < int (length xs) \<and> xs ! nat (indexOf xs x) = x"
proof (induction xs)
  case Nil
  then show ?case by simp
next
  case (Cons y ys)
  show ?case
  proof (cases "y = x")
    case True
    then show ?thesis by simp
  next
    case False
    with Cons.prems have "x \<in> set ys" by simp
    with Cons.IH have "0 \<le> indexOf ys x" "indexOf ys x < int (length ys)" "ys ! nat (indexOf ys x) = x"
      by simp_all
    with False show ?thesis by (simp add: Let_def nat_add_distrib)
  qed
qed

lemma indexOf_first:
  "j < nat (indexOf xs x) \<Longrightarrow> xs ! j \<noteq> x"
proof (induction xs arbitrary: j)
  case Nil
  then show ?case by simp
next
  case (Cons y ys)
  show ?case
  proof (cases "y = x")
    case True
    with Cons.prems show ?thesis by simp
  next
    case False
    show ?thesis
    proof (cases j)
      case 0
      with False show ?thesis by simp
    next
      case (Suc k)
      with Cons.prems False have "k < nat (indexOf ys x)"
        by (simp add: Let_def split: if_splits)
      with Cons.IH Suc show ?thesis by simp
    qed
  qed
qed

lemma indexOf_distinct:
  "distinct xs \<Longrightarrow> i < length xs \<Longrightarrow> indexOf xs (xs ! i) = int i"
proof (induction xs arbitrary: i)
  case Nil
  then show ?case by simp
next
  case (Cons y ys)
  show ?case
  proof (cases i)
    case 0
    then show ?thesis by simp
  next
    case (Suc k)
    with Cons.prems have k: "k < length ys" and ne: "y \<noteq> ys ! k" by auto
    with Cons.prems Cons.IH have "indexOf ys (ys ! k) = int k" by simp
    with Suc ne show ?thesis by (simp add: Let_def)
  qed
qed

lemma toggleTheme_step:
  assumes "theme st = Some t" and "t \<in> set (available opts)"
  shows "toggleTheme opts st =
           setTheme opts (available opts ! ((nat (indexOf (available opts) t) + 1) mod length (available opts))) st"
proof -
  from assms(2) have ne: "available opts \<noteq> []" by auto
  from indexOf_in [OF assms(2)] have i: "0 \<le> indexOf (available opts) t" by simp
  have "nat ((indexOf (available opts) t + 1) mod int (length (available opts)))
      = (nat (indexOf (available opts) t) + 1) mod length (available opts)"
    using i by (simp add: nat_mod_distrib nat_add_distrib)
  with assms(1) ne show ?thesis by (simp add: toggleTheme_def Let_def)
qed

lemma toggleTheme_theme:
  assumes "theme st = Some t" and "t \<in> set (available opts)"
  shows "theme (state_of (toggleTheme opts st)) =
           Some (available opts ! ((nat (indexOf (available opts) t) + 1) mod length (available opts)))"
proof -
  from assms(2) have "0 < length (available opts)" by (cases "available opts") auto
  then have "available opts ! ((nat (indexOf (available opts) t) + 1) mod length (available opts))
      \<in> set (available opts)" by simp
  then show ?thesis by (simp add: toggleTheme_step [OF assms] setTheme_theme)
qed

lemma toggleTheme_outside:
  assumes "available opts \<noteq> []" and "theme st = None \<or> the (theme st) \<notin> set (available opts)"
  shows "toggleTheme opts st = setTheme opts (hd (available opts)) st"
proof -
  have "(case theme st of None \<Rightarrow> - 1 | Some t \<Rightarrow> indexOf (available opts) t) = - 1"
    using assms(2) by (auto simp: indexOf_notin split: option.split)
  with assms(1) show ?thesis by (simp add: toggleTheme_def hd_conv_nth)
qed

subsection \<open>The class list after a sweep\<close>

lemma sweep_valid:
  "validMarkers cfgs \<Longrightarrow>
   sweep cfgs w = Normal (w\<lparr>classList := filter (\<lambda>c. c \<notin> set (markers cfgs)) (classList w)\<rparr>)"
proof (induction cfgs arbitrary: w)
  case Nil
  show ?case by (simp add: markers_def)
next
  case (Cons cfg cfgs)
  show ?case
  proof (cases "truthy (class' cfg)")
    case False
    with Cons.prems have "validMarkers cfgs" and "markers (cfg # cfgs) = markers cfgs"
      by (simp_all add: validMarkers_def markers_def)
    with Cons.IH False show ?thesis by simp
  next
    case True
    let ?t = "the (class' cfg)"
    from True Cons.prems have v: "validate_token ?t = None" and vs: "validMarkers cfgs"
      and m: "markers (cfg # cfgs) = ?t # markers cfgs"
      by (simp_all add: validMarkers_def markers_def)
    have f: "filter (\<lambda>c. c \<notin> set (markers cfgs)) (filter (\<lambda>c. c \<noteq> ?t) (classList w))
           = filter (\<lambda>c. c \<notin> set (markers (cfg # cfgs))) (classList w)"
      unfolding m by (induction "classList w") auto
    from v have "classList_remove ?t w = Normal (w\<lparr>classList := filter (\<lambda>c. c \<noteq> ?t) (classList w)\<rparr>)"
      by (simp add: classList_remove_def)
    with True Cons.IH [OF vs] f show ?thesis by simp
  qed
qed

lemma markers_member:
  "(n, cfg) \<in> set ths \<Longrightarrow> class' cfg = Some c \<Longrightarrow> c \<noteq> [] \<Longrightarrow> c \<in> set (markers (map snd ths))"
  by (force simp: markers_def truthy_def)

lemma applyTheme_valid:
  assumes "validMarkers (map snd ths)"
  shows "classList (state_of (applyTheme ths name w)) =
           (let kept = filter (\<lambda>c. c \<notin> set (markers (map snd ths))) (classList w);
                cls = Option.bind (map_of ths name) class'
            in if truthy cls \<and> the cls \<notin> set kept then kept @ [the cls] else kept)"
proof -
  let ?cls = "Option.bind (map_of ths name) class'"
  have "truthy ?cls \<Longrightarrow> validate_token (the ?cls) = None"
  proof -
    assume t: "truthy ?cls"
    then obtain cfg where c: "map_of ths name = Some cfg" "truthy (class' cfg)" "?cls = class' cfg"
      by (cases "map_of ths name") (auto simp: truthy_def)
    then have "(name, cfg) \<in> set ths" by (simp add: map_of_SomeD)
    then have "cfg \<in> set (map snd ths)" by force
    with c have "the (class' cfg) \<in> set (markers (map snd ths))" by (auto simp: markers_def)
    with assms c show ?thesis by (simp add: validMarkers_def list_all_iff)
  qed
  then show ?thesis
    by (auto simp: applyTheme_def Let_def sweep_valid [OF assms] classList_add_def
        setAttribute_def removeAttribute_def)
qed

subsection \<open>Initialization and the invariant\<close>

lemmas option_defs = resolvedDefault_def resolvedThemes_def resolvedKey_def resolvedStorage_def

lemmas dom_defs = classList_add_def classList_remove_def validate_token_def ascii_whitespace_def
  setAttribute_def removeAttribute_def truthy_def

lemmas controller_defs = useTheme_def applyTheme_def setTheme_def setTheme_opt_def toggleTheme_def
  storedValue_def isValid_def detect_def initial_def resolveInitial_def initialize_def

lemma isValid_iff:
  "isValid opts v \<longleftrightarrow> (\<exists>s. v = Some s \<and> s \<noteq> [] \<and> s \<in> set (available opts))"
  by (cases v) (simp_all add: isValid_def truthy_def)

lemma storedValue_useTheme: "storedValue opts (useTheme opts' w) = storedValue opts w"
  by (cases "resolvedStorage opts") (simp_all add: storedValue_def useTheme_def)

lemma resolveInitial_snd:
  "snd (resolveInitial opts st) =
     st\<lparr>detectCalls := detectCalls st +
        (if \<not> isValid opts (storedValue opts st) \<and> detectTheme opts \<noteq> None then 1 else 0)\<rparr>"
  by (simp add: resolveInitial_def detect_def Let_def split: option.split)

lemma resolveInitial_fst:
  "fst (resolveInitial opts st) =
     initial opts (storedValue opts st)
       (if isValid opts (storedValue opts st) then None
        else case detectTheme opts of None \<Rightarrow> None | Some f \<Rightarrow> f ())"
  by (simp add: resolveInitial_def detect_def Let_def split: option.split)

lemma initial_cases:
  "initial opts stored detected = resolvedDefault opts
   \<or> (\<exists>v. initial opts stored detected = Some v \<and> v \<in> set (available opts))"
  by (cases stored; cases detected) (auto simp: initial_def isValid_def truthy_def)

lemma setTheme_opt_theme:
  "theme (state_of (setTheme_opt opts x st)) =
     (case x of None \<Rightarrow> theme st | Some v \<Rightarrow> if v \<in> set (available opts) then Some v else theme st)"
  by (cases x) (simp_all add: setTheme_opt_def setTheme_theme)

lemma setTheme_opt_detectCalls:
  "detectCalls (state_of (setTheme_opt opts x st)) = detectCalls st"
  by (cases x) (simp_all add: setTheme_opt_def setTheme_detectCalls)

lemma setTheme_opt_same:
  "theme st = x \<Longrightarrow> setTheme_opt opts x st = Normal st"
  by (cases x) (auto simp: setTheme_opt_def setTheme_def)

lemma initialize_eq:
  "initialize opts st = setTheme_opt opts (fst (resolveInitial opts st)) (snd (resolveInitial opts st))"
  by (simp add: initialize_def split: prod.split)

lemma resolveInitial_theme: "theme (snd (resolveInitial opts st)) = theme st"
  by (simp add: resolveInitial_snd)

lemma initialize_theme:
  "theme (state_of (initialize opts st)) =
     (case fst (resolveInitial opts st) of None \<Rightarrow> theme st
      | Some v \<Rightarrow> if v \<in> set (available opts) then Some v else theme st)"
  unfolding initialize_eq setTheme_opt_theme resolveInitial_theme by (rule refl)

lemma initialize_detectCalls:
  "detectCalls (state_of (initialize opts st)) = detectCalls (snd (resolveInitial opts st))"
  by (simp add: initialize_eq setTheme_opt_detectCalls)

lemma initialize_after_useTheme:
  "theme (state_of (initialize opts (useTheme opts w))) = fst (resolveInitial opts (useTheme opts w))"
proof -
  let ?st = "useTheme opts w"
  have th: "theme ?st = resolvedDefault opts" by (simp add: useTheme_def)
  from initial_cases resolveInitial_fst [of opts ?st]
  consider "fst (resolveInitial opts ?st) = resolvedDefault opts"
    | v where "fst (resolveInitial opts ?st) = Some v" "v \<in> set (available opts)"
    by metis
  then show ?thesis
  proof cases
    case 1
    with th show ?thesis by (simp add: initialize_theme split: option.split)
  next
    case 2
    then show ?thesis by (simp add: initialize_theme)
  qed
qed

lemma theme_in_available_setTheme:
  "theme_in_available opts st \<Longrightarrow> theme_in_available opts (state_of (setTheme opts v st))"
  by (simp add: theme_in_available_def setTheme_theme)

lemma theme_in_available_toggleTheme:
  assumes "theme_in_available opts st"
  shows "theme_in_available opts (state_of (toggleTheme opts st))"
proof -
  from assms obtain t where t: "theme st = Some t" "t \<in> set (available opts)"
    by (auto simp: theme_in_available_def split: option.splits)
  then have "0 < length (available opts)" by (cases "available opts") auto
  then have "available opts ! ((nat (indexOf (available opts) t) + 1) mod length (available opts))
      \<in> set (available opts)" by simp
  with toggleTheme_theme [OF t] show ?thesis by (simp add: theme_in_available_def)
qed

lemma theme_in_available_initialize:
  "theme_in_available opts st \<Longrightarrow> theme_in_available opts (state_of (initialize opts st))"
  by (simp add: theme_in_available_def initialize_theme split: option.splits)

lemma theme_in_available_run:
  "theme_in_available opts st \<Longrightarrow> theme_in_available opts (run opts calls st)"
proof (induction calls arbitrary: st)
  case Nil
  then show ?case by simp
next
  case (Cons c calls)
  from Cons.prems have "theme_in_available opts (state_of (perform opts c st))"
    by (cases c)
      (simp_all add: theme_in_available_setTheme theme_in_available_toggleTheme theme_in_available_initialize)
  then show ?case by (simp add: Cons.IH)
qed

lemma setTheme_classList:
  assumes "v \<in> set (available opts)" and "theme st \<noteq> Some v"
  shows "classList (state_of (setTheme opts v st)) =
           classList (state_of (applyTheme (resolvedThemes opts) v (st\<lparr>theme := Some v\<rparr>)))"
proof -
  have "classList (state_of (andThen (applyTheme (resolvedThemes opts) v (st\<lparr>theme := Some v\<rparr>))
          (\<lambda>st'. Normal (storage_setItem (resolvedStorage opts) (resolvedKey opts) v st'))))
        = classList (state_of (applyTheme (resolvedThemes opts) v (st\<lparr>theme := Some v\<rparr>)))"
    by (rule andThen_pres) (simp_all add: storage_setItem_dom)
  with assms show ?thesis by (simp add: setTheme_def)
qed

subsection \<open>One call and the invariant\<close>

lemma perform_theme:
  "theme (state_of (perform opts c st)) = theme st
   \<or> theme_in_available opts (state_of (perform opts c st))"
proof (cases c)
  case (SetTheme v)
  then show ?thesis by (simp add: setTheme_theme theme_in_available_def)
next
  case Initialize
  then show ?thesis
    by (simp add: initialize_theme theme_in_available_def split: option.split)
next
  case ToggleTheme
  show ?thesis
  proof (cases "theme_in_available opts st")
    case True
    with ToggleTheme show ?thesis by (simp add: theme_in_available_toggleTheme)
  next
    case False
    then have out: "theme st = None \<or> the (theme st) \<notin> set (available opts)"
      by (auto simp: theme_in_available_def split: option.splits)
    show ?thesis
    proof (cases "available opts = []")
      case True
      with ToggleTheme show ?thesis by (simp add: toggleTheme_def setTheme_opt_def)
    next
      case ne: False
      then have "hd (available opts) \<in> set (available opts)" by simp
      with ToggleTheme toggleTheme_outside [OF ne out] show ?thesis
        by (simp add: setTheme_theme theme_in_available_def)
    qed
  qed
qed

lemma toggleTheme_distinct:
  assumes "distinct (available opts)" and "i < length (available opts)"
    and "theme st = Some (available opts ! i)"
  shows "theme (state_of (toggleTheme opts st)) = Some (available opts ! ((i + 1) mod length (available opts)))"
proof -
  from assms(2) have "available opts ! i \<in> set (available opts)" by simp
  from toggleTheme_theme [OF assms(3) this] indexOf_distinct [OF assms(1,2)]
  show ?thesis by simp
qed

section \<open>The claims\<close>

text \<open>
  \<^bold>\<open>C1\<close>, amended. In the scenario \<open>available = ["red", "blue"]\<close>, with the themes
  \<open>red: {class: "theme-red"}\<close> and \<open>blue: {class: "theme-blue", dataTheme: "blue"}\<close>,
  \<open>defaultTheme = "blue"\<close>, nothing stored under the key \<open>"theme"\<close> and no \<open>detectTheme\<close>,
  the initializer returns without a throw and the current theme is \<open>"blue"\<close>; the class
  list of the root element, its attributes and the storage are what they were before.
  The resolved value is the value the state got at construction, so \<open>setTheme\<close> returns at
  its equality guard: the class \<open>"theme-blue"\<close>, the attribute \<open>data-theme\<close> and the stored
  value are not written.
\<close>

theorem C1_initialize_scenario:
  fixes w :: "'c world"
  assumes "localStorage w ''theme'' = None"
  shows "initialize scenario (useTheme scenario w) = Normal (useTheme scenario w)
    \<and> theme (useTheme scenario w) = Some ''blue''
    \<and> classList (useTheme scenario w) = classList w
    \<and> attributes (useTheme scenario w) = attributes w
    \<and> localStorage (useTheme scenario w) = localStorage w"
  using assms by (simp add: scenario_def controller_defs option_defs dom_defs)

theorem C1_initialize_scenario_witness:
  "localStorage fresh ''theme'' = None
    \<and> initialize scenario (useTheme scenario fresh) = Normal (useTheme scenario fresh)
    \<and> theme (useTheme scenario fresh) = Some ''blue''
    \<and> classList (useTheme scenario fresh) = []
    \<and> attributes (useTheme scenario fresh) ''data-theme'' = None
    \<and> localStorage (useTheme scenario fresh) ''theme'' = None"
  using C1_initialize_scenario [of fresh] by (simp add: fresh_def)

text \<open>
  The scenario as the specification states it (class, attribute and stored value all
  present after the initializer) does not hold from an unmarked root and empty storage.
\<close>

theorem C1_counterexample:
  "\<not> (theme (state_of (initialize scenario (useTheme scenario fresh))) = Some ''blue''
      \<and> ''theme-blue'' \<in> set (classList (state_of (initialize scenario (useTheme scenario fresh))))
      \<and> attributes (state_of (initialize scenario (useTheme scenario fresh))) ''data-theme'' = Some ''blue''
      \<and> localStorage (state_of (initialize scenario (useTheme scenario fresh))) ''theme'' = Some ''blue'')"
  by (simp add: scenario_def fresh_def controller_defs option_defs dom_defs)

text \<open>
  \<^bold>\<open>C2\<close>, amended. Let \<open>X\<close> be a member of \<open>available\<close> at a first call \<open>setTheme(X)\<close>, and
  \<open>Y \<noteq> X\<close> a member of \<open>available\<close> at a following call \<open>setTheme(Y)\<close>. If, when the
  second call runs, the mapping \<open>themes\<close> still holds the entry of \<open>X\<close> with the class
  \<open>cx\<close> and the entry of \<open>Y\<close> with the class \<open>cy\<close>, the two classes are non-empty and
  different, and every class of the mapping is a valid token, then after the second call
  the class list of the root contains \<open>cy\<close> and not \<open>cx\<close>. The mapping may have changed
  otherwise between the calls. The sweep runs over the entries present at the time of the
  call, so nothing is promised about \<open>cx\<close> once the entry of \<open>X\<close> is removed.
\<close>

theorem C2_switch_markers:
  assumes "X \<in> set (available opts)" and "Y \<in> set (available opts')" and "X \<noteq> Y"
    and "map_of (resolvedThemes opts') X = Some cfgX" and "class' cfgX = Some cx"
    and "map_of (resolvedThemes opts') Y = Some cfgY" and "class' cfgY = Some cy"
    and "cx \<noteq> []" and "cy \<noteq> []" and "cx \<noteq> cy"
    and "validMarkers (map snd (resolvedThemes opts'))"
  shows "cy \<in> set (classList (state_of (setTheme opts' Y (state_of (setTheme opts X st)))))
       \<and> cx \<notin> set (classList (state_of (setTheme opts' Y (state_of (setTheme opts X st)))))"
proof -
  let ?st1 = "state_of (setTheme opts X st)"
  let ?ths = "resolvedThemes opts'"
  let ?kept = "filter (\<lambda>c. c \<notin> set (markers (map snd ?ths))) (classList ?st1)"
  from assms(1) have "theme ?st1 = Some X" by (simp add: setTheme_theme)
  with assms(3) have "theme ?st1 \<noteq> Some Y" by simp
  with assms(2) have "classList (state_of (setTheme opts' Y ?st1)) =
      classList (state_of (applyTheme ?ths Y (?st1\<lparr>theme := Some Y\<rparr>)))"
    by (rule setTheme_classList)
  also have "\<dots> = (if cy \<notin> set ?kept then ?kept @ [cy] else ?kept)"
    using assms(6,7,9) by (simp add: applyTheme_valid [OF assms(11)] truthy_def)
  finally have cl: "classList (state_of (setTheme opts' Y ?st1)) =
      (if cy \<notin> set ?kept then ?kept @ [cy] else ?kept)" .
  from assms(4,5,8) have "cx \<in> set (markers (map snd ?ths))"
    by (auto intro: markers_member dest: map_of_SomeD)
  then have "cx \<notin> set ?kept" by simp
  with cl assms(10) show ?thesis by auto
qed

theorem C2_switch_markers_witness:
  "''X'' \<in> set (available cxcy) \<and> ''Y'' \<in> set (available cxcy)
   \<and> validMarkers (map snd (resolvedThemes cxcy))
   \<and> ''cy'' \<in> set (classList (state_of (setTheme cxcy ''Y'' (state_of (setTheme cxcy ''X'' (useTheme cxcy fresh))))))
   \<and> ''cx'' \<notin> set (classList (state_of (setTheme cxcy ''Y'' (state_of (setTheme cxcy ''X'' (useTheme cxcy fresh))))))"
proof -
  have a: "''X'' \<in> set (available cxcy)" "''Y'' \<in> set (available cxcy)" "''X'' \<noteq> ''Y''"
    "map_of (resolvedThemes cxcy) ''X'' = Some \<lparr>class' = Some ''cx'', dataTheme = None\<rparr>"
    "class' \<lparr>class' = Some ''cx'', dataTheme = None\<rparr> = Some ''cx''"
    "map_of (resolvedThemes cxcy) ''Y'' = Some \<lparr>class' = Some ''cy'', dataTheme = None\<rparr>"
    "class' \<lparr>class' = Some ''cy'', dataTheme = None\<rparr> = Some ''cy''"
    "''cx'' \<noteq> []" "''cy'' \<noteq> []" "''cx'' \<noteq> ''cy''"
    by (simp_all add: cxcy_def resolvedThemes_def)
  have v: "validMarkers (map snd (resolvedThemes cxcy))"
    by (simp add: cxcy_def resolvedThemes_def validMarkers_def markers_def truthy_def
        validate_token_def ascii_whitespace_def)
  from C2_switch_markers [OF a v, of "useTheme cxcy fresh"] a(1,2) v show ?thesis by simp
qed

text \<open>
  With the entry of \<open>X\<close> removed from \<open>themes\<close> between the two calls, the class \<open>cx\<close> stays
  on the root after \<open>setTheme(Y)\<close>.
\<close>

theorem C2_counterexample:
  "''X'' \<in> set (available cxcy) \<and> ''Y'' \<in> set (available cxcy)
   \<and> ''cx'' \<in> set (classList (state_of (setTheme cxcy ''X'' (useTheme cxcy fresh))))
   \<and> ''cx'' \<in> set (classList (state_of (setTheme cxcy_removed ''Y''
        (state_of (setTheme cxcy ''X'' (useTheme cxcy fresh))))))"
  by (simp add: cxcy_def cxcy_removed_def fresh_def controller_defs option_defs dom_defs)

text \<open>
  \<^bold>\<open>C3\<close>, amended. For every controller with a non-empty \<open>available\<close> whose \<open>defaultTheme\<close>
  is omitted or a member of \<open>available\<close>, the current theme is a member of \<open>available\<close>
  after every sequence of \<open>setTheme\<close>, \<open>toggleTheme\<close> and initializer calls following
  construction. Whatever the options and the state, a call leaves the current theme as it
  is or sets it to a member of \<open>available\<close>.
\<close>

theorem C3_theme_in_available:
  "(available opts \<noteq> []
      \<and> (defaultTheme opts = None \<or> the (defaultTheme opts) \<in> set (available opts)) \<longrightarrow>
    theme_in_available opts (run opts calls (useTheme opts w)))
   \<and> (theme (state_of (perform opts c st)) = theme st
      \<or> theme_in_available opts (state_of (perform opts c st)))"
proof -
  have "theme_in_available opts (run opts calls (useTheme opts w))"
    if "available opts \<noteq> []"
      and "defaultTheme opts = None \<or> the (defaultTheme opts) \<in> set (available opts)"
  proof -
    from that have "theme_in_available opts (useTheme opts w)"
      by (cases "available opts"; cases "defaultTheme opts")
        (auto simp: theme_in_available_def useTheme_def resolvedDefault_def)
    then show ?thesis by (rule theme_in_available_run)
  qed
  with perform_theme [of opts c st] show ?thesis by blast
qed

theorem C3_theme_in_available_witness:
  "available lightdark \<noteq> [] \<and> defaultTheme lightdark = None
   \<and> theme_in_available lightdark
        (run lightdark [SetTheme ''pink'', ToggleTheme, Initialize, SetTheme ''light''] (useTheme lightdark fresh))"
proof -
  have a: "available lightdark \<noteq> []" and b: "defaultTheme lightdark = None"
    by (simp_all add: lightdark_def)
  from C3_theme_in_available
    [of lightdark "[SetTheme ''pink'', ToggleTheme, Initialize, SetTheme ''light'']" fresh ToggleTheme
      "useTheme lightdark fresh"] a b
  show ?thesis by blast
qed

text \<open>
  A \<open>defaultTheme\<close> outside \<open>available\<close> is not rejected at construction, and a refused
  \<open>setTheme\<close> leaves it in place.
\<close>

theorem C3_counterexample:
  "available outside \<noteq> []
   \<and> theme (run outside [SetTheme ''pink''] (useTheme outside fresh)) = Some ''blue''
   \<and> ''blue'' \<notin> set (available outside)"
  by (simp add: outside_def fresh_def controller_defs option_defs)

text \<open>
  \<^bold>\<open>C4\<close>, amended. Running the initializer right after construction resolves the theme in
  this order. A stored value that is non-empty and a member of \<open>available\<close> becomes the
  current theme, and \<open>detectTheme\<close> is not called. Without such a stored value,
  \<open>detectTheme\<close>, if supplied, is called once, and a result that is non-empty and a member
  of \<open>available\<close> becomes the current theme. Otherwise the current theme is the resolved
  default. The empty string is treated as absent in both places, also when it is a member
  of \<open>available\<close>.
\<close>

theorem C4_resolution_order:
  fixes w :: "'c world"
  shows "(storedValue opts w = Some s \<and> s \<noteq> [] \<and> s \<in> set (available opts) \<longrightarrow>
            theme (state_of (initialize opts (useTheme opts w))) = Some s
          \<and> detectCalls (state_of (initialize opts (useTheme opts w))) = detectCalls w)
       \<and> ((\<forall>s'. storedValue opts w = Some s' \<longrightarrow> s' = [] \<or> s' \<notin> set (available opts))
          \<and> detectTheme opts = Some f \<and> f () = Some d \<and> d \<noteq> [] \<and> d \<in> set (available opts) \<longrightarrow>
            theme (state_of (initialize opts (useTheme opts w))) = Some d
          \<and> detectCalls (state_of (initialize opts (useTheme opts w))) = detectCalls w + 1)
       \<and> ((\<forall>s'. storedValue opts w = Some s' \<longrightarrow> s' = [] \<or> s' \<notin> set (available opts))
          \<and> (detectTheme opts = None
              \<or> detectTheme opts = Some f \<and> (\<forall>d'. f () = Some d' \<longrightarrow> d' = [] \<or> d' \<notin> set (available opts))) \<longrightarrow>
            theme (state_of (initialize opts (useTheme opts w))) = resolvedDefault opts)"
proof -
  let ?st = "useTheme opts w"
  have sv: "storedValue opts ?st = storedValue opts w" by (rule storedValue_useTheme)
  have dc: "detectCalls ?st = detectCalls w" by (simp add: useTheme_def)
  have inv: "(\<forall>s'. storedValue opts w = Some s' \<longrightarrow> s' = [] \<or> s' \<notin> set (available opts))
      \<longleftrightarrow> \<not> isValid opts (storedValue opts w)"
    by (auto simp: isValid_iff)
  have 1: "theme (state_of (initialize opts ?st)) = Some s
         \<and> detectCalls (state_of (initialize opts ?st)) = detectCalls w"
    if "storedValue opts w = Some s" "s \<noteq> []" "s \<in> set (available opts)"
  proof -
    from that have "isValid opts (storedValue opts w)" by (simp add: isValid_iff)
    with that show ?thesis
      by (simp add: initialize_after_useTheme initialize_detectCalls resolveInitial_fst
          resolveInitial_snd sv dc initial_def)
  qed
  have 2: "theme (state_of (initialize opts ?st)) = Some d
         \<and> detectCalls (state_of (initialize opts ?st)) = detectCalls w + 1"
    if "\<not> isValid opts (storedValue opts w)" "detectTheme opts = Some f" "f () = Some d"
       "d \<noteq> []" "d \<in> set (available opts)"
    using that
    by (simp add: initialize_after_useTheme initialize_detectCalls resolveInitial_fst
        resolveInitial_snd sv dc initial_def truthy_def)
  have 3: "theme (state_of (initialize opts ?st)) = resolvedDefault opts"
    if "\<not> isValid opts (storedValue opts w)"
       "detectTheme opts = None
        \<or> detectTheme opts = Some f \<and> (\<forall>d'. f () = Some d' \<longrightarrow> d' = [] \<or> d' \<notin> set (available opts))"
    using that
    by (cases "f ()")
      (auto simp: initialize_after_useTheme resolveInitial_fst sv initial_def truthy_def)
  from 1 2 3 show ?thesis unfolding inv by blast
qed

theorem C4_resolution_order_witness:
  "storedValue sdx storedS = Some ''s'' \<and> ''s'' \<in> set (available sdx) \<and> ''d'' \<in> set (available sdx)
   \<and> theme (state_of (initialize sdx (useTheme sdx storedS))) = Some ''s''
   \<and> detectCalls (state_of (initialize sdx (useTheme sdx storedS))) = 0
   \<and> storedValue sdx fresh = None
   \<and> theme (state_of (initialize sdx (useTheme sdx fresh))) = Some ''d''
   \<and> detectCalls (state_of (initialize sdx (useTheme sdx fresh))) = 1
   \<and> storedValue sdq fresh = None \<and> ''q'' \<notin> set (available sdq)
   \<and> theme (state_of (initialize sdq (useTheme sdq fresh))) = Some ''x''"
proof -
  have a: "storedValue sdx storedS = Some ''s''" "''s'' \<in> set (available sdx)"
    "''d'' \<in> set (available sdx)" "storedValue sdx fresh = None"
    "detectTheme sdx = Some (\<lambda>_. Some ''d'')" "detectCalls storedS = 0" "detectCalls fresh = 0"
    by (simp_all add: sdx_def storedS_def fresh_def storedValue_def option_defs)
  have b: "storedValue sdq fresh = None" "''q'' \<notin> set (available sdq)"
    "detectTheme sdq = Some (\<lambda>_. Some ''q'')" "resolvedDefault sdq = Some ''x''"
    by (simp_all add: sdq_def fresh_def storedValue_def option_defs)
  from C4_resolution_order [of sdx storedS "''s''" "\<lambda>_. Some ''d''" "''d''"] a
  have 1: "theme (state_of (initialize sdx (useTheme sdx storedS))) = Some ''s''
         \<and> detectCalls (state_of (initialize sdx (useTheme sdx storedS))) = 0"
    by simp
  from C4_resolution_order [of sdx fresh "''s''" "\<lambda>_. Some ''d''" "''d''"] a
  have 2: "theme (state_of (initialize sdx (useTheme sdx fresh))) = Some ''d''
         \<and> detectCalls (state_of (initialize sdx (useTheme sdx fresh))) = 1"
    by simp
  from C4_resolution_order [of sdq fresh "''s''" "\<lambda>_. Some ''q''" "''d''"] b
  have 3: "theme (state_of (initialize sdq (useTheme sdq fresh))) = Some ''x''"
    by simp
  from 1 2 3 a b show ?thesis by simp
qed

text \<open>
  A stored empty string that is a member of \<open>available\<close> does not win: the initializer
  resolves to the default.
\<close>

theorem C4_counterexample:
  "storedValue emptyName storedEmpty = Some ''''
   \<and> '''' \<in> set (available emptyName)
   \<and> theme (state_of (initialize emptyName (useTheme emptyName storedEmpty))) = Some ''dark''"
  by (simp add: emptyName_def storedEmpty_def fresh_def controller_defs option_defs truthy_def)

text \<open>
  \<^bold>\<open>C5\<close>. When the value resolved by the initializer equals the default the state was
  given at construction, the call of \<open>setTheme\<close> made by the initializer returns without a
  throw and changes neither the class list, nor the attributes of the root, nor any
  storage backend. So a change of the root or of the storage by the initializer happens
  only when the resolved value differs from that default.
\<close>

theorem C5_initialize_effects:
  fixes w :: "'c world"
  assumes "fst (resolveInitial opts (useTheme opts w)) = resolvedDefault opts"
  shows "(\<exists>st. initialize opts (useTheme opts w) = Normal st)
       \<and> classList (state_of (initialize opts (useTheme opts w))) = classList w
       \<and> attributes (state_of (initialize opts (useTheme opts w))) = attributes w
       \<and> localStorage (state_of (initialize opts (useTheme opts w))) = localStorage w
       \<and> sessionStorage (state_of (initialize opts (useTheme opts w))) = sessionStorage w
       \<and> customStorage (state_of (initialize opts (useTheme opts w))) = customStorage w"
proof -
  let ?st = "useTheme opts w"
  let ?st1 = "snd (resolveInitial opts ?st)"
  have "theme ?st1 = resolvedDefault opts" by (simp add: resolveInitial_theme useTheme_def)
  with assms have "setTheme_opt opts (fst (resolveInitial opts ?st)) ?st1 = Normal ?st1"
    by (simp add: setTheme_opt_same)
  then have "initialize opts ?st = Normal ?st1" by (simp add: initialize_eq)
  then show ?thesis by (simp add: resolveInitial_snd useTheme_def)
qed

theorem C5_initialize_effects_witness:
  "fst (resolveInitial scenario (useTheme scenario fresh)) = resolvedDefault scenario
   \<and> classList (state_of (initialize scenario (useTheme scenario fresh))) = []
   \<and> attributes (state_of (initialize scenario (useTheme scenario fresh))) = Map.empty
   \<and> localStorage (state_of (initialize scenario (useTheme scenario fresh))) = Map.empty"
proof -
  have a: "fst (resolveInitial scenario (useTheme scenario fresh)) = resolvedDefault scenario"
    by (simp add: scenario_def fresh_def controller_defs option_defs truthy_def)
  from C5_initialize_effects [OF a] a show ?thesis by (simp add: fresh_def)
qed

text \<open>
  \<^bold>\<open>C6\<close>. For every name that is not a member of \<open>available\<close>, \<open>setTheme\<close> returns
  normally and leaves the whole state as it is: the current theme, the class list and the
  attributes of the root, and every storage backend.
\<close>

theorem C6_unknown_name_ignored:
  assumes "v \<notin> set (available opts)"
  shows "setTheme opts v st = Normal st"
  using assms by (simp add: setTheme_def)

theorem C6_unknown_name_ignored_witness:
  "''pink'' \<notin> set (available lightdark)
   \<and> setTheme lightdark ''pink'' (useTheme lightdark fresh) = Normal (useTheme lightdark fresh)"
proof -
  have a: "''pink'' \<notin> set (available lightdark)" by (simp add: lightdark_def)
  from C6_unknown_name_ignored [OF a] a show ?thesis by simp
qed

text \<open>
  \<^bold>\<open>C7\<close>. For every name that is a member of \<open>available\<close>, the current theme read after
  \<open>setTheme(name)\<close> is that name, also when applying the class markers throws.
\<close>

theorem C7_setTheme_then_read:
  assumes "v \<in> set (available opts)"
  shows "theme (state_of (setTheme opts v st)) = Some v"
  using assms by (simp add: setTheme_theme)

theorem C7_setTheme_then_read_witness:
  "''dark'' \<in> set (available lightdark)
   \<and> theme (state_of (setTheme lightdark ''dark'' (useTheme lightdark fresh))) = Some ''dark''"
proof -
  have a: "''dark'' \<in> set (available lightdark)" by (simp add: lightdark_def)
  from C7_setTheme_then_read [OF a] a show ?thesis by simp
qed

text \<open>
  \<^bold>\<open>C8\<close>. With the current theme \<open>t\<close> a member of \<open>available\<close>, \<open>indexOf\<close> gives the
  first position of \<open>t\<close> in \<open>available\<close>, and \<open>toggleTheme\<close> is \<open>setTheme\<close> at the element of
  position \<open>(index + 1) mod length\<close>. With distinct entries, a toggle from position \<open>i\<close>
  gives the entry at \<open>(i + 1) mod length\<close>, and a toggle from the last entry gives the
  first. With \<open>available = [a, b, c]\<close>, three distinct names, starting at \<open>a\<close>, successive
  toggles give \<open>b\<close>, \<open>c\<close>, \<open>a\<close>, \<open>b\<close>. With \<open>available = [a]\<close> and the current theme \<open>a\<close>,
  \<open>toggleTheme\<close> changes nothing.
\<close>

theorem C8_toggleTheme_cycles:
  "(theme st = Some t \<and> t \<in> set (available opts) \<longrightarrow>
      nat (indexOf (available opts) t) < length (available opts)
    \<and> available opts ! nat (indexOf (available opts) t) = t
    \<and> (\<forall>j < nat (indexOf (available opts) t). available opts ! j \<noteq> t)
    \<and> toggleTheme opts st =
        setTheme opts (available opts ! ((nat (indexOf (available opts) t) + 1) mod length (available opts))) st)
   \<and> (distinct (available opts) \<and> i < length (available opts) \<and> theme st = Some (available opts ! i) \<longrightarrow>
      theme (state_of (toggleTheme opts st)) = Some (available opts ! ((i + 1) mod length (available opts))))
   \<and> (distinct (available opts) \<and> available opts \<noteq> [] \<and> theme st = Some (last (available opts)) \<longrightarrow>
      theme (state_of (toggleTheme opts st)) = Some (hd (available opts)))
   \<and> (available opts = [a, b, c] \<and> distinct [a, b, c] \<and> theme st = Some a \<longrightarrow>
      theme (run opts [ToggleTheme] st) = Some b
    \<and> theme (run opts [ToggleTheme, ToggleTheme] st) = Some c
    \<and> theme (run opts [ToggleTheme, ToggleTheme, ToggleTheme] st) = Some a
    \<and> theme (run opts [ToggleTheme, ToggleTheme, ToggleTheme, ToggleTheme] st) = Some b)
   \<and> (available opts = [a] \<and> theme st = Some a \<longrightarrow> toggleTheme opts st = Normal st)"
proof -
  let ?av = "available opts"
  have 1: "nat (indexOf ?av t) < length ?av \<and> ?av ! nat (indexOf ?av t) = t
      \<and> (\<forall>j < nat (indexOf ?av t). ?av ! j \<noteq> t)
      \<and> toggleTheme opts st = setTheme opts (?av ! ((nat (indexOf ?av t) + 1) mod length ?av)) st"
    if "theme st = Some t" "t \<in> set ?av"
  proof -
    from indexOf_in [OF that(2)] have "nat (indexOf ?av t) < length ?av" by linarith
    with indexOf_in [OF that(2)] toggleTheme_step [OF that] indexOf_first [of _ ?av t]
    show ?thesis by blast
  qed
  have 2: "theme (state_of (toggleTheme opts st')) = Some (?av ! ((j + 1) mod length ?av))"
    if "distinct ?av" "j < length ?av" "theme st' = Some (?av ! j)" for st' j
    using that by (rule toggleTheme_distinct)
  have 3: "theme (state_of (toggleTheme opts st)) = Some (hd ?av)"
    if "distinct ?av" "?av \<noteq> []" "theme st = Some (last ?av)"
  proof -
    from that(2) have l: "length ?av - 1 < length ?av" by simp
    from that(2,3) have "theme st = Some (?av ! (length ?av - 1))" by (simp add: last_conv_nth)
    from 2 [OF that(1) l this] that(2) show ?thesis by (simp add: hd_conv_nth)
  qed
  have 4: "theme (run opts [ToggleTheme] st) = Some b
      \<and> theme (run opts [ToggleTheme, ToggleTheme] st) = Some c
      \<and> theme (run opts [ToggleTheme, ToggleTheme, ToggleTheme] st) = Some a
      \<and> theme (run opts [ToggleTheme, ToggleTheme, ToggleTheme, ToggleTheme] st) = Some b"
    if av: "?av = [a, b, c]" and d: "distinct [a, b, c]" and st: "theme st = Some a"
  proof -
    let ?t = "\<lambda>s. state_of (toggleTheme opts s)"
    from av d have dist: "distinct ?av" by simp
    have s1: "theme (?t st) = Some b"
      using 2 [OF dist, of 0 st] av st by simp
    have s2: "theme (?t (?t st)) = Some c"
      using 2 [OF dist, of 1 "?t st"] av s1 by simp
    have s3: "theme (?t (?t (?t st))) = Some a"
      using 2 [OF dist, of 2 "?t (?t st)"] av s2 by simp
    have s4: "theme (?t (?t (?t (?t st)))) = Some b"
      using 2 [OF dist, of 0 "?t (?t (?t st))"] av s3 by simp
    from s1 s2 s3 s4 show ?thesis by simp
  qed
  have 5: "toggleTheme opts st = Normal st" if "?av = [a]" "theme st = Some a"
  proof -
    from that have "toggleTheme opts st = setTheme opts a st"
      using toggleTheme_step [of st a opts] by simp
    with that(2) show ?thesis by (simp add: setTheme_def)
  qed
  from 1 2 3 4 5 show ?thesis by blast
qed

theorem C8_toggleTheme_cycles_witness:
  "available abc = [''a'', ''b'', ''c''] \<and> distinct (available abc)
   \<and> theme (useTheme abc fresh) = Some ''a''
   \<and> indexOf (available abc) ''a'' = 0
   \<and> theme (run abc [ToggleTheme] (useTheme abc fresh)) = Some ''b''
   \<and> theme (run abc [ToggleTheme, ToggleTheme] (useTheme abc fresh)) = Some ''c''
   \<and> theme (run abc [ToggleTheme, ToggleTheme, ToggleTheme] (useTheme abc fresh)) = Some ''a''
   \<and> theme (run abc [ToggleTheme, ToggleTheme, ToggleTheme, ToggleTheme] (useTheme abc fresh)) = Some ''b''
   \<and> theme (state_of (toggleTheme abc ((useTheme abc fresh)\<lparr>theme := Some ''c''\<rparr>))) = Some ''a''
   \<and> available single = [''a''] \<and> theme (useTheme single fresh) = Some ''a''
   \<and> toggleTheme single (useTheme single fresh) = Normal (useTheme single fresh)"
proof -
  have a: "available abc = [''a'', ''b'', ''c'']" "distinct (available abc)"
    "theme (useTheme abc fresh) = Some ''a''" "indexOf (available abc) ''a'' = 0"
    "theme ((useTheme abc fresh)\<lparr>theme := Some ''c''\<rparr>) = Some (last (available abc))"
    "hd (available abc) = ''a''" "available abc \<noteq> []" "distinct [''a'', ''b'', ''c'']"
    by (simp_all add: abc_def useTheme_def resolvedDefault_def)
  have s: "available single = [''a'']" "theme (useTheme single fresh) = Some ''a''"
    by (simp_all add: single_def useTheme_def resolvedDefault_def)
  from C8_toggleTheme_cycles [of "useTheme abc fresh" "''a''" abc 0 "''a''" "''b''" "''c''"] a
  have 1: "theme (run abc [ToggleTheme] (useTheme abc fresh)) = Some ''b''
     \<and> theme (run abc [ToggleTheme, ToggleTheme] (useTheme abc fresh)) = Some ''c''
     \<and> theme (run abc [ToggleTheme, ToggleTheme, ToggleTheme] (useTheme abc fresh)) = Some ''a''
     \<and> theme (run abc [ToggleTheme, ToggleTheme, ToggleTheme, ToggleTheme] (useTheme abc fresh)) = Some ''b''"
    by blast
  from C8_toggleTheme_cycles [of "(useTheme abc fresh)\<lparr>theme := Some ''c''\<rparr>" "''c''" abc 2 "''a''" "''b''" "''c''"] a
  have "theme (state_of (toggleTheme abc ((useTheme abc fresh)\<lparr>theme := Some ''c''\<rparr>))) = Some (hd (available abc))"
    by blast
  with a have 2: "theme (state_of (toggleTheme abc ((useTheme abc fresh)\<lparr>theme := Some ''c''\<rparr>))) = Some ''a''"
    by simp
  from C8_toggleTheme_cycles [of "useTheme single fresh" "''a''" single 0 "''a''" "''b''" "''c''"] s
  have 3: "toggleTheme single (useTheme single fresh) = Normal (useTheme single fresh)"
    by blast
  from 1 2 3 a s show ?thesis by simp
qed

text \<open>
  \<^bold>\<open>C9\<close>. For every name and every state, a second \<open>setTheme(name)\<close> right after a first
  returns normally and leaves the whole state (current theme, root element, storage) as
  the first call left it.
\<close>

theorem C9_setTheme_idempotent:
  "setTheme opts v (state_of (setTheme opts v st)) = Normal (state_of (setTheme opts v st))"
proof (cases "v \<in> set (available opts)")
  case True
  then have "theme (state_of (setTheme opts v st)) = Some v" by (simp add: setTheme_theme)
  then show ?thesis by (simp add: setTheme_def [of opts v "state_of (setTheme opts v st)"])
next
  case False
  then show ?thesis by (simp add: setTheme_def)
qed

theorem C9_setTheme_idempotent_witness:
  "theme (useTheme lightdark fresh) \<noteq> Some ''dark''
   \<and> setTheme lightdark ''dark'' (state_of (setTheme lightdark ''dark'' (useTheme lightdark fresh)))
     = Normal (state_of (setTheme lightdark ''dark'' (useTheme lightdark fresh)))"
  using C9_setTheme_idempotent [of lightdark "''dark''" "useTheme lightdark fresh"]
  by (simp add: lightdark_def useTheme_def resolvedDefault_def)

text \<open>
  \<^bold>\<open>C10\<close>. When the current theme is not a member of a non-empty \<open>available\<close>, \<open>indexOf\<close>
  gives \<open>-1\<close>, \<open>toggleTheme\<close> is \<open>setTheme\<close> at position \<open>0\<close>, and the current theme becomes
  the first entry of \<open>available\<close>.
\<close>

theorem C10_toggleTheme_from_outside:
  assumes "available opts \<noteq> []" and "theme st = Some t" and "t \<notin> set (available opts)"
  shows "indexOf (available opts) t = - 1
       \<and> toggleTheme opts st = setTheme opts (available opts ! 0) st
       \<and> theme (state_of (toggleTheme opts st)) = Some (hd (available opts))"
proof -
  from assms(3) have i: "indexOf (available opts) t = - 1" by (rule indexOf_notin)
  from assms have t: "toggleTheme opts st = setTheme opts (hd (available opts)) st"
    by (simp add: toggleTheme_outside)
  from assms(1) have "hd (available opts) \<in> set (available opts)" by simp
  then have "theme (state_of (setTheme opts (hd (available opts)) st)) = Some (hd (available opts))"
    by (simp add: setTheme_theme)
  with i t assms(1) show ?thesis by (simp add: hd_conv_nth)
qed

theorem C10_toggleTheme_from_outside_witness:
  "available outside \<noteq> [] \<and> theme (useTheme outside fresh) = Some ''blue''
   \<and> ''blue'' \<notin> set (available outside)
   \<and> indexOf (available outside) ''blue'' = - 1
   \<and> theme (state_of (toggleTheme outside (useTheme outside fresh))) = Some ''light''"
proof -
  have a: "available outside \<noteq> []" "theme (useTheme outside fresh) = Some ''blue''"
    "''blue'' \<notin> set (available outside)" "hd (available outside) = ''light''"
    by (simp_all add: outside_def useTheme_def resolvedDefault_def)
  from C10_toggleTheme_from_outside [OF a(1,2,3)]
  have "indexOf (available outside) ''blue'' = - 1"
    and "theme (state_of (toggleTheme outside (useTheme outside fresh))) = Some (hd (available outside))"
    by blast+
  with a show ?thesis by simp
qed

end
